theory Spec2Isabelle
  imports Complex_Main
begin

section \<open>Space Defender: the frame orchestrator and its collaborators\<close>

text \<open>
  A shallow embedding of the game's core: the collision utilities
  (\<^verbatim>\<open>services/collision_service.py\<close>), the entities (\<^verbatim>\<open>entities/player.py\<close>,
  \<^verbatim>\<open>entities/enemy.py\<close>, \<^verbatim>\<open>entities/projectile.py\<close>), the score service
  (\<^verbatim>\<open>services/score_service.py\<close>) and the engine (\<^verbatim>\<open>services/game_engine.py\<close>).

  Python floats are modelled by exact reals, Python ints by \<^typ>\<open>int\<close>.  Exceptions are
  values of type \<open>error\<close>; a function that may raise returns \<open>error + 'a\<close>.
\<close>

subsection \<open>Configuration (\<^verbatim>\<open>config.py\<close>)\<close>

definition SCREEN_WIDTH :: int where "SCREEN_WIDTH = 800"
definition SCREEN_HEIGHT :: int where "SCREEN_HEIGHT = 600"
definition PLAYER_SPEED :: int where "PLAYER_SPEED = 5"
definition PLAYER_WIDTH :: int where "PLAYER_WIDTH = 30"
definition PLAYER_HEIGHT :: int where "PLAYER_HEIGHT = 40"
definition PLAYER_START_X_RATIO :: real where "PLAYER_START_X_RATIO = 5 / 10"
definition PLAYER_START_Y_RATIO :: real where "PLAYER_START_Y_RATIO = 85 / 100"
definition PLAYER_STARTING_LIVES :: int where "PLAYER_STARTING_LIVES = 3"
definition PLAYER_INVULNERABILITY_TIME :: real where "PLAYER_INVULNERABILITY_TIME = 2"
definition PROJECTILE_SPEED :: int where "PROJECTILE_SPEED = 8"
definition PROJECTILE_WIDTH :: int where "PROJECTILE_WIDTH = 4"
definition PROJECTILE_HEIGHT :: int where "PROJECTILE_HEIGHT = 12"
definition PROJECTILE_COOLDOWN :: real where "PROJECTILE_COOLDOWN = 3 / 10"
definition ENEMY_SPEED_MIN :: real where "ENEMY_SPEED_MIN = 1"
definition ENEMY_SPEED_MAX :: real where "ENEMY_SPEED_MAX = 3"
definition ENEMY_SIZE_MIN :: int where "ENEMY_SIZE_MIN = 20"
definition ENEMY_SIZE_MAX :: int where "ENEMY_SIZE_MAX = 40"
definition ENEMY_SPAWN_RATE :: real where "ENEMY_SPAWN_RATE = 15 / 10"
definition ENEMY_POINTS :: int where "ENEMY_POINTS = 10"
definition DIFFICULTY_INCREASE_INTERVAL :: int where "DIFFICULTY_INCREASE_INTERVAL = 100"
definition SPAWN_RATE_MULTIPLIER :: real where "SPAWN_RATE_MULTIPLIER = 9 / 10"
definition ENEMY_SPEED_MULTIPLIER :: real where "ENEMY_SPEED_MULTIPLIER = 11 / 10"

subsection \<open>Exceptions\<close>

datatype error = KeyError | TypeError | OSError | JSONDecodeError | AttributeError

subsection \<open>Rectangles\<close>

text \<open>
  A \<^verbatim>\<open>pygame.Rect\<close> holds four machine integers; \<open>left\<close> and \<open>top\<close> are the
  attributes the source also reads as \<^verbatim>\<open>rect.x\<close> and \<^verbatim>\<open>rect.y\<close>.  The coordinates
  of the game stay far inside the 32-bit range, so they are modelled as unbounded
  integers.  Assigning a float to an attribute of a rectangle stores the nearest integer
  (\<open>rect_store\<close>; a value halfway between two integers goes away from zero).  Nothing
  proved below depends on how such ties are broken: the proofs use only that the stored
  integer is within half a pixel of the float and that a whole number is stored as it is,
  and no example has a tie.  Since no rounded value of the examples is within float error
  of a tie, exact reals and IEEE doubles store the same pixels there.
  \<open>py_int\<close> is Python's \<^verbatim>\<open>int()\<close>, which truncates toward zero.
\<close>

record rect =
  left :: int
  top :: int
  width :: int
  height :: int

definition py_int :: "real \<Rightarrow> int" where
  "py_int r = (if 0 \<le> r then \<lfloor>r\<rfloor> else \<lceil>r\<rceil>)"

definition rect_store :: "real \<Rightarrow> int" where
  "rect_store r = (if 0 \<le> r then \<lfloor>r + 1 / 2\<rfloor> else \<lceil>r - 1 / 2\<rceil>)"

definition half :: "int \<Rightarrow> int" where
  \<comment> \<open>C's \<^verbatim>\<open>w / 2\<close>, which rounds toward zero\<close>
  "half w = (if 0 \<le> w then w div 2 else - ((- w) div 2))"

definition right :: "rect \<Rightarrow> int" where "right r = left r + width r"
definition bottom :: "rect \<Rightarrow> int" where "bottom r = top r + height r"
definition centerx :: "rect \<Rightarrow> int" where "centerx r = left r + half (width r)"
definition centery :: "rect \<Rightarrow> int" where "centery r = top r + half (height r)"

definition set_right :: "int \<Rightarrow> rect \<Rightarrow> rect" where
  "set_right v r = r\<lparr>left := v - width r\<rparr>"
definition set_bottom :: "int \<Rightarrow> rect \<Rightarrow> rect" where
  "set_bottom v r = r\<lparr>top := v - height r\<rparr>"
definition set_centerx :: "int \<Rightarrow> rect \<Rightarrow> rect" where
  "set_centerx v r = r\<lparr>left := v - half (width r)\<rparr>"
definition set_centery :: "int \<Rightarrow> rect \<Rightarrow> rect" where
  "set_centery v r = r\<lparr>top := v - half (height r)\<rparr>"

definition get_rect :: "int \<Rightarrow> int \<Rightarrow> rect" where
  \<comment> \<open>\<^verbatim>\<open>Surface((w, h)).get_rect()\<close>: a rectangle of that size at the origin\<close>
  "get_rect w h = \<lparr>left = 0, top = 0, width = w, height = h\<rparr>"

definition colliderect :: "rect \<Rightarrow> rect \<Rightarrow> bool" where
  \<comment> \<open>\<^verbatim>\<open>Rect.colliderect\<close>: rectangles of zero extent collide with nothing, edges that
      only touch do not overlap\<close>
  "colliderect a b =
     (if width a = 0 \<or> height a = 0 \<or> width b = 0 \<or> height b = 0 then False
      else min (left a) (left a + width a) < max (left b) (left b + width b)
         \<and> min (top a) (top a + height a) < max (top b) (top b + height b)
         \<and> max (left a) (left a + width a) > min (left b) (left b + width b)
         \<and> max (top a) (top a + height a) > min (top b) (top b + height b))"

subsection \<open>Collision service\<close>

definition check_collision :: "rect \<Rightarrow> rect \<Rightarrow> bool" where
  "check_collision rect1 rect2 = colliderect rect1 rect2"

definition check_out_of_bounds :: "rect \<Rightarrow> int \<Rightarrow> int \<Rightarrow> int \<Rightarrow> bool" where
  "check_out_of_bounds r screen_width screen_height margin =
     (if right r < - margin then True
      else if left r > screen_width + margin then True
      else if bottom r < - margin then True
      else if top r > screen_height + margin then True
      else False)"

definition keep_in_bounds :: "rect \<Rightarrow> int \<Rightarrow> int \<Rightarrow> rect" where
  "keep_in_bounds r screen_width screen_height =
     (let r1 = (if left r < 0 then r\<lparr>left := 0\<rparr> else r);
          r2 = (if right r1 > screen_width then set_right screen_width r1 else r1);
          r3 = (if top r2 < 0 then r2\<lparr>top := 0\<rparr> else r2);
          r4 = (if bottom r3 > screen_height then set_bottom screen_height r3 else r3)
      in r4)"

subsection \<open>Projectile\<close>

text \<open>
  Every sprite carries an identity (\<open>pid\<close>, \<open>eid\<close>): the Python object identity by
  which \<^verbatim>\<open>kill()\<close> removes a sprite from the groups that hold it.
\<close>

record projectile =
  pid :: nat
  p_rect :: rect
  velocity_x :: real
  velocity_y :: real

definition Projectile_init :: "nat \<Rightarrow> int \<Rightarrow> int \<Rightarrow> real \<Rightarrow> real \<Rightarrow> projectile" where
  "Projectile_init i x y vx vy =
     \<lparr>pid = i,
      p_rect = set_centery y (set_centerx x (get_rect PROJECTILE_WIDTH PROJECTILE_HEIGHT)),
      velocity_x = vx, velocity_y = vy\<rparr>"

definition Projectile_update :: "real \<Rightarrow> projectile \<Rightarrow> projectile" where
  "Projectile_update delta_time p =
     (let r1 = (p_rect p)\<lparr>left :=
                 rect_store (real_of_int (left (p_rect p)) + velocity_x p * delta_time * 60)\<rparr>;
          r2 = r1\<lparr>top := rect_store (real_of_int (top r1) + velocity_y p * delta_time * 60)\<rparr>
      in p\<lparr>p_rect := r2\<rparr>)"

subsection \<open>Enemy\<close>

record enemy =
  eid :: nat
  e_rect :: rect
  speed :: real
  rotation :: real
  rotation_speed :: real
  e_size :: int

definition Enemy_init :: "nat \<Rightarrow> int \<Rightarrow> int \<Rightarrow> real \<Rightarrow> int \<Rightarrow> real \<Rightarrow> real \<Rightarrow> enemy" where
  \<comment> \<open>the last two arguments are the constructor's two random draws\<close>
  "Enemy_init i x y spd sz rot rot_spd =
     \<lparr>eid = i,
      e_rect = set_centery y (set_centerx x (get_rect sz sz)),
      speed = spd, rotation = rot, rotation_speed = rot_spd, e_size = sz\<rparr>"

text \<open>
  \<^verbatim>\<open>pygame.transform.rotate\<close> returns an image whose size is the bounding box of the
  rotated square; that size is a parameter \<open>rotated\<close> of the model (angle and side to
  width and height).
\<close>

type_synonym rotate_size = "real \<Rightarrow> int \<Rightarrow> int \<times> int"

definition Enemy_update :: "rotate_size \<Rightarrow> real \<Rightarrow> enemy \<Rightarrow> enemy" where
  "Enemy_update rotated delta_time en =
     (let r1 = (e_rect en)\<lparr>top :=
                 rect_store (real_of_int (top (e_rect en)) + speed en * delta_time * 60)\<rparr>;
          rot = rotation en + rotation_speed en;
          (w, h) = rotated rot (e_size en);
          old_center = (centerx r1, centery r1);
          r2 = set_centery (snd old_center) (set_centerx (fst old_center) (get_rect w h))
      in en\<lparr>e_rect := r2, rotation := rot\<rparr>)"

subsection \<open>Player\<close>

record player =
  pl_rect :: rect
  lives :: int
  max_lives :: int
  shoot_cooldown :: real
  invulnerable_flash_timer :: real
  alpha :: int

definition Player_init :: "real \<Rightarrow> real \<Rightarrow> player" where
  "Player_init x y =
     \<lparr>pl_rect = set_centery (rect_store y)
                  (set_centerx (rect_store x) (get_rect PLAYER_WIDTH PLAYER_HEIGHT)),
      lives = PLAYER_STARTING_LIVES, max_lives = PLAYER_STARTING_LIVES,
      shoot_cooldown = 0, invulnerable_flash_timer = 0, alpha = 255\<rparr>"

type_synonym input_state = "string \<rightharpoonup> bool"

definition getitem :: "input_state \<Rightarrow> string \<Rightarrow> error + bool" where
  \<comment> \<open>\<^verbatim>\<open>input_state[key]\<close>\<close>
  "getitem d k = (case d k of None \<Rightarrow> Inl KeyError | Some v \<Rightarrow> Inr v)"

definition Player_update :: "input_state \<Rightarrow> real \<Rightarrow> player \<Rightarrow> error + player" where
  "Player_update inp delta_time p =
     (case getitem inp ''move_left'' of Inl err \<Rightarrow> Inl err | Inr go_left \<Rightarrow>
     (case getitem inp ''move_right'' of Inl err \<Rightarrow> Inl err | Inr go_right \<Rightarrow>
      let move_x = (0::int);
          move_y = (0::int);
          move_x = (if go_left then move_x - PLAYER_SPEED else move_x);
          move_x = (if go_right then move_x + PLAYER_SPEED else move_x);
          r = (pl_rect p)\<lparr>left := left (pl_rect p) + move_x\<rparr>;
          r = r\<lparr>top := top r + move_y\<rparr>;
          r = keep_in_bounds r SCREEN_WIDTH SCREEN_HEIGHT;
          cd = (if shoot_cooldown p > 0 then shoot_cooldown p - delta_time else shoot_cooldown p);
          p1 = p\<lparr>pl_rect := r, shoot_cooldown := cd\<rparr>
      in if invulnerable_flash_timer p1 > 0
         then (let t = invulnerable_flash_timer p1 - delta_time
               in Inr (p1\<lparr>invulnerable_flash_timer := t,
                           alpha := (if py_int (t * 10) mod 2 = 0 then 100 else 255)\<rparr>))
         else Inr (p1\<lparr>alpha := 255\<rparr>)))"

definition can_shoot :: "player \<Rightarrow> bool" where
  "can_shoot p = (shoot_cooldown p \<le> 0)"

definition shoot :: "nat \<Rightarrow> player \<Rightarrow> projectile option \<times> player" where
  \<comment> \<open>the first argument is the identity of the projectile object created\<close>
  "shoot i p =
     (if \<not> can_shoot p then (None, p)
      else (let bullet_x = centerx (pl_rect p);
                bullet_y = top (pl_rect p);
                projectile = Projectile_init i bullet_x bullet_y 0 (- real_of_int PROJECTILE_SPEED)
            in (Some projectile, p\<lparr>shoot_cooldown := PROJECTILE_COOLDOWN\<rparr>)))"

definition take_damage :: "player \<Rightarrow> player" where
  "take_damage p =
     p\<lparr>lives := lives p - 1, invulnerable_flash_timer := PLAYER_INVULNERABILITY_TIME\<rparr>"

definition heal :: "int \<Rightarrow> player \<Rightarrow> player" where
  "heal amount p = p\<lparr>lives := min (lives p + amount) (max_lives p)\<rparr>"


subsection \<open>Score service\<close>

text \<open>
  \<^verbatim>\<open>json.load\<close> gives Python values, and \<^verbatim>\<open>load_high_score\<close> hands on whatever is
  stored under \<^verbatim>\<open>"high_score"\<close> without looking at it; \<open>pyval\<close> is the type of these
  values (floats as exact reals).

  The save file is modelled by what reading it gives: no file, a file that cannot be
  opened, text that \<^verbatim>\<open>json.load\<close> rejects, a JSON value that is not an object, or an
  object (its keys mapped to their values).  The world also records every high score
  written successfully, in order.  Messages printed to the console are not modelled.
\<close>

datatype pyval =
    PNone
  | PBool bool
  | PInt int
  | PFloat real
  | PStr string
  | PList "pyval list"
  | PDict "(string \<times> pyval) list"

datatype file_state = NoFile | Unreadable | Malformed | NotObject | Object "string \<rightharpoonup> pyval"

record world =
  hs_file :: file_state
  writes :: "pyval list"

datatype write_outcome = WriteOk | OpenFails | DumpFails

text \<open>
  The attribute \<^verbatim>\<open>high_score\<close> holds what \<^verbatim>\<open>load_high_score\<close> returned until
  \<^verbatim>\<open>add_points\<close> replaces it by an integer, so its type is a parameter of the record:
  \<open>pyval score_service\<close> is a service as the constructor leaves it, \<open>int score_service\<close>
  a service whose high score is an integer.  The engine is modelled with the latter;
  \<open>add_points\<close> and \<open>save_high_score\<close> are the methods on such a service,
  \<open>add_points_py\<close> and \<open>save_high_score_py\<close> the methods on any service; they agree
  (\<open>add_points_py_int\<close> below, and \<open>save_high_score\<close> by its definition).
\<close>

record 'h score_service =
  current_score :: int
  high_score :: 'h

definition load_high_score_try :: "world \<Rightarrow> error + pyval" where
  \<comment> \<open>the body of the \<^verbatim>\<open>try\<close> block\<close>
  "load_high_score_try w =
     (case hs_file w of
        NoFile \<Rightarrow> Inl OSError
      | Unreadable \<Rightarrow> Inl OSError
      | Malformed \<Rightarrow> Inl JSONDecodeError
      | NotObject \<Rightarrow> Inl AttributeError
      | Object data \<Rightarrow> Inr (case data ''high_score'' of None \<Rightarrow> PInt 0 | Some v \<Rightarrow> v))"

definition load_high_score :: "world \<Rightarrow> error + pyval" where
  "load_high_score w =
     (if hs_file w = NoFile then Inr (PInt 0)
      else (case load_high_score_try w of
              Inr v \<Rightarrow> Inr v
            | Inl err \<Rightarrow> Inr (PInt 0)))"

definition save_high_score_try ::
    "write_outcome \<Rightarrow> pyval score_service \<Rightarrow> world \<Rightarrow> error option \<times> world" where
  \<comment> \<open>the body of the \<^verbatim>\<open>try\<close> block: the exception raised, if any, and the world it leaves\<close>
  "save_high_score_try io svc w =
     (let data = [''high_score'' \<mapsto> high_score svc]
      in case io of
           OpenFails \<Rightarrow> (Some OSError, w)
         | DumpFails \<Rightarrow> (Some OSError, w\<lparr>hs_file := Malformed\<rparr>)
         | WriteOk \<Rightarrow> (None, w\<lparr>hs_file := Object data, writes := writes w @ [high_score svc]\<rparr>))"

definition save_high_score_py :: "write_outcome \<Rightarrow> pyval score_service \<Rightarrow> world \<Rightarrow> error + world" where
  "save_high_score_py io svc w =
     (case save_high_score_try io svc w of
        (None, w') \<Rightarrow> Inr w'
      | (Some err, w') \<Rightarrow> Inr w')"

definition to_py :: "int score_service \<Rightarrow> pyval score_service" where
  \<comment> \<open>a service whose high score is an integer, as a service\<close>
  "to_py svc = \<lparr>current_score = current_score svc, high_score = PInt (high_score svc)\<rparr>"

definition save_high_score :: "write_outcome \<Rightarrow> int score_service \<Rightarrow> world \<Rightarrow> error + world" where
  "save_high_score io svc w = save_high_score_py io (to_py svc) w"

definition ScoreService_init :: "world \<Rightarrow> error + pyval score_service" where
  "ScoreService_init w =
     (case load_high_score w of
        Inl err \<Rightarrow> Inl err
      | Inr h \<Rightarrow> Inr \<lparr>current_score = 0, high_score = h\<rparr>)"

definition py_gt :: "int \<Rightarrow> pyval \<Rightarrow> error + bool" where
  \<comment> \<open>Python's \<^verbatim>\<open>a > b\<close> for an integer \<open>a\<close>: numbers compare (\<^verbatim>\<open>True\<close> is 1), anything
      else raises\<close>
  "py_gt a b =
     (case b of
        PInt h \<Rightarrow> Inr (a > h)
      | PBool t \<Rightarrow> Inr (a > (if t then 1 else 0))
      | PFloat r \<Rightarrow> Inr (real_of_int a > r)
      | _ \<Rightarrow> Inl TypeError)"

definition add_points_py :: "int \<Rightarrow> pyval score_service \<Rightarrow> error + pyval score_service" where
  "add_points_py points svc =
     (let s1 = svc\<lparr>current_score := current_score svc + points\<rparr>
      in case py_gt (current_score s1) (high_score s1) of
           Inl err \<Rightarrow> Inl err
         | Inr beaten \<Rightarrow> Inr (if beaten then s1\<lparr>high_score := PInt (current_score s1)\<rparr> else s1))"

definition add_points :: "int \<Rightarrow> int score_service \<Rightarrow> int score_service" where
  "add_points points svc =
     (let s1 = svc\<lparr>current_score := current_score svc + points\<rparr>
      in if current_score s1 > high_score s1 then s1\<lparr>high_score := current_score s1\<rparr> else s1)"

definition get_current_score :: "'h score_service \<Rightarrow> int" where
  "get_current_score svc = current_score svc"

definition get_high_score :: "'h score_service \<Rightarrow> 'h" where
  "get_high_score svc = high_score svc"

definition reset_score :: "'h score_service \<Rightarrow> 'h score_service" where
  "reset_score svc = svc\<lparr>current_score := 0\<rparr>"

subsection \<open>Engine state\<close>

text \<open>
  The engine owns three sprite groups.  The typed groups hold the sprite objects;
  \<open>all_sprites\<close> holds references to the same objects, in insertion order.  \<open>next_id\<close>
  is the identity of the next sprite object to be created.
\<close>

datatype sprite_ref = PlayerRef | ProjectileRef nat | EnemyRef nat

record engine =
  all_sprites :: "sprite_ref list"
  player_projectiles :: "projectile list"
  enemies :: "enemy list"
  score_service :: "int score_service"
  player :: player
  enemy_spawn_timer :: real
  current_spawn_rate :: real
  next_difficulty_score :: int
  current_enemy_speed_min :: real
  current_enemy_speed_max :: real
  player_invulnerable_timer :: real
  delta_time :: real
  next_id :: nat

definition GameEngine_init :: "int score_service \<Rightarrow> engine" where
  \<comment> \<open>the argument is the score service the constructor creates\<close>
  "GameEngine_init svc =
     (let start_x = real_of_int SCREEN_WIDTH * PLAYER_START_X_RATIO;
          start_y = real_of_int SCREEN_HEIGHT * PLAYER_START_Y_RATIO
      in \<lparr>all_sprites = [PlayerRef],
          player_projectiles = [],
          enemies = [],
          score_service = svc,
          player = Player_init start_x start_y,
          enemy_spawn_timer = 0,
          current_spawn_rate = ENEMY_SPAWN_RATE,
          next_difficulty_score = DIFFICULTY_INCREASE_INTERVAL,
          current_enemy_speed_min = ENEMY_SPEED_MIN,
          current_enemy_speed_max = ENEMY_SPEED_MAX,
          player_invulnerable_timer = 0,
          delta_time = 0,
          next_id = 0\<rparr>)"

definition reset :: "engine \<Rightarrow> engine" where
  "reset e =
     (let start_x = real_of_int SCREEN_WIDTH * PLAYER_START_X_RATIO;
          start_y = real_of_int SCREEN_HEIGHT * PLAYER_START_Y_RATIO
      in e\<lparr>all_sprites := [PlayerRef],
           player_projectiles := [],
           enemies := [],
           score_service := reset_score (score_service e),
           player := Player_init start_x start_y,
           enemy_spawn_timer := 0,
           current_spawn_rate := ENEMY_SPAWN_RATE,
           current_enemy_speed_min := ENEMY_SPEED_MIN,
           current_enemy_speed_max := ENEMY_SPEED_MAX,
           next_difficulty_score := DIFFICULTY_INCREASE_INTERVAL,
           player_invulnerable_timer := 0\<rparr>)"


subsection \<open>Sprite groups\<close>

text \<open>
  \<^verbatim>\<open>Group.update(*args)\<close> calls \<^verbatim>\<open>sprite.update(*args)\<close> on every sprite of the
  group.  The engine passes floats only, so the positional arguments are a list of
  reals.  \<^verbatim>\<open>Player.update(self, input_state, delta_time)\<close> takes two arguments and
  subscripts the first (\<^verbatim>\<open>input_state['move_left']\<close>); \<^verbatim>\<open>Projectile.update\<close> and \<^verbatim>\<open>Enemy.update\<close> take one.  A call
  with the wrong number of arguments raises \<^verbatim>\<open>TypeError\<close>, and so does subscripting a
  float.
\<close>

definition sprite_update :: "rotate_size \<Rightarrow> real list \<Rightarrow> sprite_ref \<Rightarrow> engine \<Rightarrow> error + engine" where
  "sprite_update rotated args ref e =
     (case ref of
        PlayerRef \<Rightarrow>
          (case args of
             [inp, dt] \<Rightarrow> Inl TypeError \<comment> \<open>the body subscripts its first argument, a float\<close>
           | _ \<Rightarrow> Inl TypeError \<comment> \<open>missing or surplus positional argument\<close>)
      | ProjectileRef i \<Rightarrow>
          (case args of
             [dt] \<Rightarrow> Inr (e\<lparr>player_projectiles :=
                             map (\<lambda>p. if pid p = i then Projectile_update dt p else p)
                                 (player_projectiles e)\<rparr>)
           | _ \<Rightarrow> Inl TypeError)
      | EnemyRef i \<Rightarrow>
          (case args of
             [dt] \<Rightarrow> Inr (e\<lparr>enemies :=
                             map (\<lambda>en. if eid en = i then Enemy_update rotated dt en else en)
                                 (enemies e)\<rparr>)
           | _ \<Rightarrow> Inl TypeError))"

fun Group_update :: "rotate_size \<Rightarrow> real list \<Rightarrow> sprite_ref list \<Rightarrow> engine \<Rightarrow> error + engine" where
  "Group_update rotated args [] e = Inr e"
| "Group_update rotated args (ref # refs) e =
     (case sprite_update rotated args ref e of
        Inl err \<Rightarrow> Inl err
      | Inr e' \<Rightarrow> Group_update rotated args refs e')"

definition kill_projectile :: "projectile \<Rightarrow> engine \<Rightarrow> engine" where
  "kill_projectile p e =
     e\<lparr>player_projectiles := filter (\<lambda>q. pid q \<noteq> pid p) (player_projectiles e),
       all_sprites := filter (\<lambda>r. r \<noteq> ProjectileRef (pid p)) (all_sprites e)\<rparr>"

definition kill_enemy :: "enemy \<Rightarrow> engine \<Rightarrow> engine" where
  "kill_enemy en e =
     e\<lparr>enemies := filter (\<lambda>x. eid x \<noteq> eid en) (enemies e),
       all_sprites := filter (\<lambda>r. r \<noteq> EnemyRef (eid en)) (all_sprites e)\<rparr>"

definition spritecollide :: "rect \<Rightarrow> enemy list \<Rightarrow> enemy list" where
  \<comment> \<open>\<^verbatim>\<open>pygame.sprite.spritecollide(sprite, group, False)\<close>: the sprites of the group
      whose rectangle the sprite's rectangle overlaps\<close>
  "spritecollide r es = filter (\<lambda>en. colliderect r (e_rect en)) es"

fun groupcollide :: "projectile list \<Rightarrow> enemy list \<Rightarrow>
    (projectile \<times> enemy list) list \<times> projectile list \<times> enemy list" where
  \<comment> \<open>\<^verbatim>\<open>pygame.sprite.groupcollide(groupa, groupb, True, True)\<close>: each sprite of the
      first group in turn kills the sprites still in the second group that it overlaps,
      and is killed itself if there was one.  The result is the dictionary of hits
      (in insertion order) and what is left of the two groups.\<close>
  "groupcollide [] es = ([], [], es)"
| "groupcollide (p # ps) es =
     (let collision = filter (\<lambda>en. colliderect (p_rect p) (e_rect en)) es;
          rest = filter (\<lambda>en. \<not> colliderect (p_rect p) (e_rect en)) es
      in if collision \<noteq> []
         then (case groupcollide ps rest of
                 (crashed, ps', es') \<Rightarrow> ((p, collision) # crashed, ps', es'))
         else (case groupcollide ps es of
                 (crashed, ps', es') \<Rightarrow> (crashed, p # ps', es')))"

definition check_group_collision :: "projectile list \<Rightarrow> enemy list \<Rightarrow>
    (projectile \<times> enemy list) list \<times> projectile list \<times> enemy list" where
  \<comment> \<open>the engine's only call passes \<^verbatim>\<open>True, True\<close>\<close>
  "check_group_collision group1 group2 = groupcollide group1 group2"

subsection \<open>Engine operations\<close>

text \<open>
  The random draws of one frame are inputs: two raw draws for \<^verbatim>\<open>random.randint\<close>
  and three values of \<^verbatim>\<open>random.random()\<close> for \<^verbatim>\<open>random.uniform\<close>.
\<close>

record spawn_rnd =
  rnd_x :: nat
  rnd_size :: nat
  rnd_speed :: real
  rnd_rotation :: real
  rnd_rotation_speed :: real

definition randint :: "int \<Rightarrow> int \<Rightarrow> nat \<Rightarrow> int" where
  "randint a b n = a + int n mod (b - a + 1)"

definition uniform :: "real \<Rightarrow> real \<Rightarrow> real \<Rightarrow> real" where
  "uniform a b u = a + (b - a) * u"

definition new_enemy :: "spawn_rnd \<Rightarrow> engine \<Rightarrow> enemy" where
  \<comment> \<open>\<^verbatim>\<open>spawn_enemy\<close> up to the creation of the enemy\<close>
  "new_enemy rnd e =
     (let margin = ENEMY_SIZE_MAX;
          x = randint margin (SCREEN_WIDTH - margin) (rnd_x rnd);
          y = - ENEMY_SIZE_MAX;
          spd = uniform (current_enemy_speed_min e) (current_enemy_speed_max e) (rnd_speed rnd);
          sz = randint ENEMY_SIZE_MIN ENEMY_SIZE_MAX (rnd_size rnd)
      in Enemy_init (next_id e) x y spd sz
           (uniform 0 360 (rnd_rotation rnd)) (uniform (- 2) 2 (rnd_rotation_speed rnd)))"

definition spawn_enemy :: "spawn_rnd \<Rightarrow> engine \<Rightarrow> engine" where
  "spawn_enemy rnd e =
     (let en = new_enemy rnd e
      in e\<lparr>enemies := enemies e @ [en],
           all_sprites := all_sprites e @ [EnemyRef (eid en)],
           next_id := Suc (next_id e)\<rparr>)"

definition award_points ::
    "(projectile \<times> enemy list) list \<Rightarrow> int score_service \<Rightarrow> int score_service" where
  \<comment> \<open>the two nested \<^verbatim>\<open>for\<close> loops over the dictionary of hits\<close>
  "award_points hits svc =
     fold (\<lambda>(projectile, hit_enemies) s. fold (\<lambda>en. add_points ENEMY_POINTS) hit_enemies s) hits svc"

definition killed_refs :: "(projectile \<times> enemy list) list \<Rightarrow> sprite_ref list" where
  \<comment> \<open>the sprites \<^verbatim>\<open>groupcollide\<close> killed: they leave every group, \<open>all_sprites\<close> too\<close>
  "killed_refs hits =
     map (\<lambda>h. ProjectileRef (pid (fst h))) hits @ map (\<lambda>en. EnemyRef (eid en)) (concat (map snd hits))"

definition check_collisions_projectiles :: "engine \<Rightarrow> engine" where
  \<comment> \<open>\<^verbatim>\<open>check_collisions\<close>, first part: projectiles hit enemies\<close>
  "check_collisions_projectiles e =
     (case check_group_collision (player_projectiles e) (enemies e) of
        (hits, ps', es') \<Rightarrow>
          e\<lparr>player_projectiles := ps',
            enemies := es',
            all_sprites := filter (\<lambda>r. r \<notin> set (killed_refs hits)) (all_sprites e),
            score_service := award_points hits (score_service e)\<rparr>)"

definition check_collisions_player :: "engine \<Rightarrow> engine" where
  \<comment> \<open>\<^verbatim>\<open>check_collisions\<close>, second part: enemies hit the player\<close>
  "check_collisions_player e =
     (if player_invulnerable_timer e \<le> 0
      then (let player_hits = spritecollide (pl_rect (player e)) (enemies e)
            in if player_hits \<noteq> []
               then fold kill_enemy player_hits
                      (e\<lparr>player := take_damage (player e),
                         player_invulnerable_timer := PLAYER_INVULNERABILITY_TIME\<rparr>)
               else e)
      else e)"

definition check_collisions :: "engine \<Rightarrow> engine" where
  "check_collisions e = check_collisions_player (check_collisions_projectiles e)"

definition cleanup_sprites :: "engine \<Rightarrow> engine" where
  "cleanup_sprites e =
     (let margin = 100;
          e1 = fold (\<lambda>p s. if check_out_of_bounds (p_rect p) SCREEN_WIDTH SCREEN_HEIGHT margin
                            then kill_projectile p s else s)
                    (player_projectiles e) e;
          e2 = fold (\<lambda>en s. if check_out_of_bounds (e_rect en) SCREEN_WIDTH SCREEN_HEIGHT margin
                             then kill_enemy en s else s)
                    (enemies e1) e1
      in e2)"

definition update_difficulty :: "engine \<Rightarrow> engine" where
  "update_difficulty e =
     (let score = get_current_score (score_service e)
      in if score \<ge> next_difficulty_score e
         then e\<lparr>current_spawn_rate := current_spawn_rate e * SPAWN_RATE_MULTIPLIER,
                current_enemy_speed_min := current_enemy_speed_min e * ENEMY_SPEED_MULTIPLIER,
                current_enemy_speed_max := current_enemy_speed_max e * ENEMY_SPEED_MULTIPLIER,
                next_difficulty_score := next_difficulty_score e + DIFFICULTY_INCREASE_INTERVAL\<rparr>
         else e)"

definition shoot_step :: "input_state \<Rightarrow> engine \<Rightarrow> error + engine" where
  \<comment> \<open>\<^verbatim>\<open>update\<close>: check if player wants to shoot\<close>
  "shoot_step inp e =
     (case getitem inp ''shoot'' of
        Inl err \<Rightarrow> Inl err
      | Inr want \<Rightarrow>
          if want \<and> can_shoot (player e)
          then (case shoot (next_id e) (player e) of
                  (Some projectile, p') \<Rightarrow>
                    Inr (e\<lparr>player := p',
                           player_projectiles := player_projectiles e @ [projectile],
                           all_sprites := all_sprites e @ [ProjectileRef (pid projectile)],
                           next_id := Suc (next_id e)\<rparr>)
                | (None, p') \<Rightarrow> Inr (e\<lparr>player := p'\<rparr>))
          else Inr e)"

definition spawn_step :: "spawn_rnd \<Rightarrow> engine \<Rightarrow> engine" where
  \<comment> \<open>\<^verbatim>\<open>update\<close>: spawn enemies\<close>
  "spawn_step rnd e =
     (let e1 = e\<lparr>enemy_spawn_timer := enemy_spawn_timer e + delta_time e\<rparr>
      in if enemy_spawn_timer e1 \<ge> current_spawn_rate e1
         then (spawn_enemy rnd e1)\<lparr>enemy_spawn_timer := 0\<rparr>
         else e1)"

definition invulnerability_step :: "engine \<Rightarrow> engine" where
  \<comment> \<open>\<^verbatim>\<open>update\<close>: update invulnerability timer\<close>
  "invulnerability_step e =
     (if player_invulnerable_timer e > 0
      then e\<lparr>player_invulnerable_timer := player_invulnerable_timer e - delta_time e\<rparr>
      else e)"

definition update_world :: "spawn_rnd \<Rightarrow> engine \<Rightarrow> engine" where
  \<comment> \<open>\<^verbatim>\<open>update\<close> from the spawn step to its end (none of these statements can raise)\<close>
  "update_world rnd e =
     invulnerability_step (update_difficulty (cleanup_sprites (check_collisions (spawn_step rnd e))))"

definition update :: "rotate_size \<Rightarrow> input_state \<Rightarrow> nat \<Rightarrow> spawn_rnd \<Rightarrow> engine \<Rightarrow> error + engine" where
  \<comment> \<open>\<open>tick\<close> is the number of milliseconds \<^verbatim>\<open>clock.tick(FPS)\<close> returns\<close>
  "update rotated inp tick rnd e =
     (let e1 = e\<lparr>delta_time := real tick / 1000\<rparr>
      in case Player_update inp (delta_time e1) (player e1) of
           Inl err \<Rightarrow> Inl err
         | Inr p' \<Rightarrow>
             (case shoot_step inp (e1\<lparr>player := p'\<rparr>) of
                Inl err \<Rightarrow> Inl err
              | Inr e2 \<Rightarrow>
                  (case Group_update rotated [delta_time e2] (all_sprites e2) e2 of
                     Inl err \<Rightarrow> Inl err
                   | Inr e3 \<Rightarrow> Inr (update_world rnd e3))))"

definition is_game_over :: "write_outcome \<Rightarrow> engine \<Rightarrow> world \<Rightarrow> error + bool \<times> world" where
  "is_game_over io e w =
     (let is_over = (lives (player e) \<le> 0)
      in if is_over
         then (case save_high_score io (score_service e) w of
                 Inl err \<Rightarrow> Inl err
               | Inr w' \<Rightarrow> Inr (is_over, w'))
         else Inr (is_over, w))"

definition get_score :: "engine \<Rightarrow> int" where
  "get_score e = get_current_score (score_service e)"

subsection \<open>Sequences of calls and example states\<close>




definition start_world :: world where
  "start_world = \<lparr>hs_file = NoFile, writes = []\<rparr>"

definition initial_engine :: engine where
  \<comment> \<open>the engine right after its construction when no save file exists\<close>
  "initial_engine =
     \<lparr>all_sprites = [PlayerRef], player_projectiles = [], enemies = [],
      score_service = \<lparr>current_score = 0, high_score = 0\<rparr>,
      player = \<lparr>pl_rect = \<lparr>left = 385, top = 490, width = 30, height = 40\<rparr>,
                lives = 3, max_lives = 3, shoot_cooldown = 0,
                invulnerable_flash_timer = 0, alpha = 255\<rparr>,
      enemy_spawn_timer = 0, current_spawn_rate = 15 / 10, next_difficulty_score = 100,
      current_enemy_speed_min = 1, current_enemy_speed_max = 3,
      player_invulnerable_timer = 0, delta_time = 0, next_id = 0\<rparr>"

definition no_keys :: input_state where
  "no_keys = [''move_left'' \<mapsto> False, ''move_right'' \<mapsto> False, ''move_up'' \<mapsto> False,
              ''move_down'' \<mapsto> False, ''shoot'' \<mapsto> False]"

definition square_rotation :: rotate_size where
  \<comment> \<open>a rotation that leaves the bounding box as it is\<close>
  "square_rotation angle sz = (sz, sz)"

definition middle_draw :: spawn_rnd where
  \<comment> \<open>draws that give an enemy of side 40 centred at x = 400, of speed 2\<close>
  "middle_draw = \<lparr>rnd_x = 360, rnd_size = 20, rnd_speed = 1 / 2, rnd_rotation = 0,
                   rnd_rotation_speed = 1 / 2\<rparr>"


definition contact_engine :: engine where
  \<comment> \<open>two enemies on the player, and an enemy out of reach\<close>
  "contact_engine =
     initial_engine
       \<lparr>all_sprites := [PlayerRef, EnemyRef 1, EnemyRef 2, EnemyRef 3],
        enemies := [Enemy_init 1 400 500 2 40 0 0, Enemy_init 2 390 485 1 20 0 0,
                    Enemy_init 3 100 100 2 40 0 0],
        next_id := 4\<rparr>"


lemmas config_defs =
  SCREEN_WIDTH_def SCREEN_HEIGHT_def PLAYER_SPEED_def PLAYER_WIDTH_def PLAYER_HEIGHT_def
  PLAYER_START_X_RATIO_def PLAYER_START_Y_RATIO_def PLAYER_STARTING_LIVES_def
  PLAYER_INVULNERABILITY_TIME_def PROJECTILE_SPEED_def PROJECTILE_WIDTH_def
  PROJECTILE_HEIGHT_def PROJECTILE_COOLDOWN_def ENEMY_SPEED_MIN_def ENEMY_SPEED_MAX_def
  ENEMY_SIZE_MIN_def ENEMY_SIZE_MAX_def ENEMY_SPAWN_RATE_def ENEMY_POINTS_def
  DIFFICULTY_INCREASE_INTERVAL_def SPAWN_RATE_MULTIPLIER_def ENEMY_SPEED_MULTIPLIER_def

lemmas rect_defs =
  get_rect_def set_centerx_def set_centery_def half_def centerx_def centery_def right_def bottom_def

section \<open>Properties\<close>

subsection \<open>Score persistence\<close>








subsection \<open>The high score is the running maximum\<close>


lemma add_points_py_int: "add_points_py points (to_py svc) = Inr (to_py (add_points points svc))"
  by (simp add: add_points_py_def add_points_def py_gt_def to_py_def Let_def)








subsection \<open>Game over and saving\<close>

text \<open>
  Claim C2 fails as stated: the engine keeps no record of having saved, so polling
  \<^verbatim>\<open>is_game_over\<close> twice while the player has no lives writes the high score twice.
\<close>

theorem is_game_over_saves_twice_counterexample:
  "is_game_over WriteOk (initial_engine\<lparr>player := (player initial_engine)\<lparr>lives := 0\<rparr>\<rparr>) start_world
     = Inr (True, \<lparr>hs_file = Object [''high_score'' \<mapsto> PInt 0], writes = [PInt 0]\<rparr>)
   \<and> is_game_over WriteOk (initial_engine\<lparr>player := (player initial_engine)\<lparr>lives := 0\<rparr>\<rparr>)
        \<lparr>hs_file = Object [''high_score'' \<mapsto> PInt 0], writes = [PInt 0]\<rparr>
     = Inr (True, \<lparr>hs_file = Object [''high_score'' \<mapsto> PInt 0], writes = [PInt 0, PInt 0]\<rparr>)"
  by (simp add: is_game_over_def save_high_score_def save_high_score_py_def save_high_score_try_def to_py_def initial_engine_def
      start_world_def)

text \<open>
  Claim C2, amended.  \<^verbatim>\<open>is_game_over\<close> never raises and returns true exactly when the
  player's lives are at most 0.  Every call that returns true saves the high score
  (a successful write replaces the file and is one more write), so each poll while the
  game is over persists it again; a call that returns false leaves the file alone.
\<close>

theorem is_game_over_saves_on_every_poll:
  "is_game_over WriteOk e w =
     Inr (lives (player e) \<le> 0,
          if lives (player e) \<le> 0
          then w\<lparr>hs_file := Object [''high_score'' \<mapsto> PInt (high_score (score_service e))],
                 writes := writes w @ [PInt (high_score (score_service e))]\<rparr>
          else w)
   \<and> (\<exists>w'. is_game_over io e w = Inr (lives (player e) \<le> 0, w')
           \<and> (lives (player e) > 0 \<longrightarrow> w' = w))"
  by (auto simp: is_game_over_def save_high_score_def save_high_score_py_def save_high_score_try_def to_py_def Let_def
      split: write_outcome.splits)

theorem is_game_over_saves_on_every_poll_witness:
  "lives (player initial_engine) > 0
   \<and> is_game_over WriteOk initial_engine start_world = Inr (False, start_world)
   \<and> is_game_over WriteOk (initial_engine\<lparr>player := (player initial_engine)\<lparr>lives := 0\<rparr>\<rparr>)
        \<lparr>hs_file = Object [''high_score'' \<mapsto> PInt 0], writes = [PInt 0]\<rparr>
     = Inr (True, \<lparr>hs_file = Object [''high_score'' \<mapsto> PInt 0], writes = [PInt 0, PInt 0]\<rparr>)"
  using is_game_over_saves_on_every_poll [of initial_engine start_world WriteOk]
    is_game_over_saves_on_every_poll
      [of "initial_engine\<lparr>player := (player initial_engine)\<lparr>lives := 0\<rparr>\<rparr>"
          "\<lparr>hs_file = Object [''high_score'' \<mapsto> PInt 0], writes = [PInt 0]\<rparr>" WriteOk]
  by (simp add: initial_engine_def start_world_def)

subsection \<open>The frame update raises\<close>

lemma init_engine:
  "ScoreService_init start_world = Inr (to_py \<lparr>current_score = 0, high_score = 0\<rparr>)"
  "GameEngine_init \<lparr>current_score = 0, high_score = 0\<rparr> = initial_engine"
  by (simp_all add: GameEngine_init_def ScoreService_init_def load_high_score_def start_world_def
      to_py_def initial_engine_def Player_init_def get_rect_def set_centerx_def set_centery_def
      half_def rect_store_def config_defs)

lemma Group_update_player:
  "PlayerRef \<in> set refs \<Longrightarrow> Group_update rotated [dt] refs e = Inl TypeError"
proof (induction refs arbitrary: e)
  case Nil then show ?case by simp
next
  case (Cons r refs)
  show ?case
  proof (cases r)
    case PlayerRef then show ?thesis by (simp add: sprite_update_def)
  next
    case (ProjectileRef i)
    with Cons show ?thesis by (simp add: sprite_update_def)
  next
    case (EnemyRef i)
    with Cons show ?thesis by (simp add: sprite_update_def)
  qed
qed

lemma shoot_step_keeps_player:
  "shoot_step inp e = Inr e' \<Longrightarrow> PlayerRef \<in> set (all_sprites e) \<Longrightarrow> PlayerRef \<in> set (all_sprites e')"
  by (auto simp: shoot_step_def shoot_def Let_def split: sum.splits if_splits prod.splits option.splits)

lemma Player_update_keys:
  "(\<exists>p'. Player_update inp dt p = Inr p') = (''move_left'' \<in> dom inp \<and> ''move_right'' \<in> dom inp)"
  by (auto simp: Player_update_def getitem_def Let_def split: option.splits)

lemma Player_update_cases:
  "Player_update inp dt p = Inl KeyError \<or> (\<exists>p'. Player_update inp dt p = Inr p')"
  by (auto simp: Player_update_def getitem_def Let_def split: option.splits)

lemma shoot_step_cases:
  "shoot_step inp e = Inl KeyError \<or> (\<exists>e'. shoot_step inp e = Inr e')"
  by (auto simp: shoot_step_def getitem_def shoot_def Let_def split: option.splits)

lemma reset_has_player: "PlayerRef \<in> set (all_sprites (reset e))"
  by (simp add: reset_def Let_def)

lemma Player_update_returns:
  "''move_left'' \<in> dom inp \<Longrightarrow> ''move_right'' \<in> dom inp \<Longrightarrow> \<exists>p'. Player_update inp dt p = Inr p'"
  using Player_update_keys [of inp dt p] by simp

lemma shoot_step_returns:
  "''shoot'' \<in> dom inp \<Longrightarrow> \<exists>e'. shoot_step inp e = Inr e'"
  by (auto simp: shoot_step_def getitem_def shoot_def Let_def split: option.splits)

text \<open>
  Claim C1 fails on the code.  The player is a member of \<open>all_sprites\<close> (the constructor
  and \<^verbatim>\<open>reset\<close> put it there, and nothing removes it), and \<^verbatim>\<open>update\<close> calls
  \<^verbatim>\<open>all_sprites.update(delta_time)\<close>, which calls \<^verbatim>\<open>Player.update\<close> with one argument
  where it takes two.  So no call of \<^verbatim>\<open>update\<close> returns: it raises \<^verbatim>\<open>KeyError\<close> if the
  input lacks an action, and \<^verbatim>\<open>TypeError\<close> otherwise.
\<close>

theorem update_always_raises:
  assumes "PlayerRef \<in> set (all_sprites e)"
  shows "(update rotated inp tick rnd e = Inl TypeError \<or> update rotated inp tick rnd e = Inl KeyError)
       \<and> (''move_left'' \<in> dom inp \<and> ''move_right'' \<in> dom inp \<and> ''shoot'' \<in> dom inp \<longrightarrow>
            update rotated inp tick rnd e = Inl TypeError)"
proof -
  let ?e1 = "e\<lparr>delta_time := real tick / 1000\<rparr>"
  have after_shoot: "update rotated inp tick rnd e = Inl TypeError"
    if p: "Player_update inp (delta_time ?e1) (player ?e1) = Inr p'"
      and s: "shoot_step inp (?e1\<lparr>player := p'\<rparr>) = Inr e2" for p' e2
  proof -
    have "PlayerRef \<in> set (all_sprites e2)"
      using shoot_step_keeps_player [OF s] assms by simp
    then have "Group_update rotated [delta_time e2] (all_sprites e2) e2 = Inl TypeError"
      by (rule Group_update_player)
    with p s show ?thesis by (simp add: update_def Let_def)
  qed
  have 1: "update rotated inp tick rnd e = Inl TypeError \<or> update rotated inp tick rnd e = Inl KeyError"
  proof -
    consider "Player_update inp (delta_time ?e1) (player ?e1) = Inl KeyError"
      | p' where "Player_update inp (delta_time ?e1) (player ?e1) = Inr p'"
      using Player_update_cases by blast
    then show ?thesis
    proof cases
      case 1 then show ?thesis by (simp add: update_def Let_def)
    next
      case outer: 2
      consider "shoot_step inp (?e1\<lparr>player := p'\<rparr>) = Inl KeyError"
        | e2 where "shoot_step inp (?e1\<lparr>player := p'\<rparr>) = Inr e2"
        using shoot_step_cases by blast
      then show ?thesis
      proof cases
        case 1 with outer show ?thesis by (simp add: update_def Let_def)
      next
        case inner: 2
        from after_shoot [OF outer inner] show ?thesis by simp
      qed
    qed
  qed
  have 2: "update rotated inp tick rnd e = Inl TypeError"
    if k: "''move_left'' \<in> dom inp \<and> ''move_right'' \<in> dom inp \<and> ''shoot'' \<in> dom inp"
  proof -
    from k obtain p' where p: "Player_update inp (delta_time ?e1) (player ?e1) = Inr p'"
      using Player_update_returns by blast
    from k obtain e2 where s: "shoot_step inp (?e1\<lparr>player := p'\<rparr>) = Inr e2"
      using shoot_step_returns by blast
    from after_shoot [OF p s] show ?thesis .
  qed
  from 1 2 show ?thesis by blast
qed

text \<open>The first frame of a new game, no key pressed, 16 milliseconds after the last.\<close>

theorem update_always_raises_witness:
  "PlayerRef \<in> set (all_sprites initial_engine)
   \<and> ''move_left'' \<in> dom no_keys \<and> ''move_right'' \<in> dom no_keys \<and> ''shoot'' \<in> dom no_keys
   \<and> update square_rotation no_keys 16 middle_draw initial_engine = Inl TypeError"
proof -
  have a: "PlayerRef \<in> set (all_sprites initial_engine)" by (simp add: initial_engine_def)
  have k: "''move_left'' \<in> dom no_keys \<and> ''move_right'' \<in> dom no_keys \<and> ''shoot'' \<in> dom no_keys"
    by (simp add: no_keys_def)
  from update_always_raises [OF a, of square_rotation no_keys 16 middle_draw] a k
  show ?thesis by blast
qed

subsection \<open>Difficulty\<close>

text \<open>
  Claim C6.  In a state whose spawn interval and speed bounds are not negative (as the
  constructor and \<^verbatim>\<open>reset\<close> set them, and as \<^verbatim>\<open>update_difficulty\<close> keeps them), a call
  of \<^verbatim>\<open>update_difficulty\<close> never lowers the next threshold, never raises the spawn
  interval and never lowers a speed bound; it either changes nothing or applies exactly
  one escalation, however far the score is above the threshold.
\<close>

theorem update_difficulty_monotone:
  assumes "0 \<le> current_spawn_rate e" and "0 \<le> current_enemy_speed_min e"
    and "0 \<le> current_enemy_speed_max e"
  shows "next_difficulty_score e \<le> next_difficulty_score (update_difficulty e)
       \<and> current_spawn_rate (update_difficulty e) \<le> current_spawn_rate e
       \<and> current_enemy_speed_min e \<le> current_enemy_speed_min (update_difficulty e)
       \<and> current_enemy_speed_max e \<le> current_enemy_speed_max (update_difficulty e)
       \<and> (update_difficulty e = e
          \<or> update_difficulty e =
              e\<lparr>current_spawn_rate := current_spawn_rate e * SPAWN_RATE_MULTIPLIER,
                current_enemy_speed_min := current_enemy_speed_min e * ENEMY_SPEED_MULTIPLIER,
                current_enemy_speed_max := current_enemy_speed_max e * ENEMY_SPEED_MULTIPLIER,
                next_difficulty_score := next_difficulty_score e + DIFFICULTY_INCREASE_INTERVAL\<rparr>)
       \<and> 0 \<le> current_spawn_rate (update_difficulty e)
       \<and> 0 \<le> current_enemy_speed_min (update_difficulty e)
       \<and> 0 \<le> current_enemy_speed_max (update_difficulty e)"
  using assms by (simp add: update_difficulty_def Let_def config_defs)

theorem update_difficulty_monotone_witness:
  "0 \<le> current_spawn_rate initial_engine \<and> 0 \<le> current_enemy_speed_min initial_engine
   \<and> 0 \<le> current_enemy_speed_max initial_engine
   \<and> next_difficulty_score
        (update_difficulty (initial_engine\<lparr>score_service := \<lparr>current_score = 350, high_score = 350\<rparr>\<rparr>)) = 200
   \<and> current_spawn_rate
        (update_difficulty (initial_engine\<lparr>score_service := \<lparr>current_score = 350, high_score = 350\<rparr>\<rparr>)) = 135 / 100"
  using update_difficulty_monotone
    [of "initial_engine\<lparr>score_service := \<lparr>current_score = 350, high_score = 350\<rparr>\<rparr>"]
  by (simp add: initial_engine_def update_difficulty_def get_current_score_def Let_def config_defs)

subsection \<open>Timers and lives\<close>





subsection \<open>Straight-line motion\<close>

text \<open>
  Claim C8 fails as stated: positions are whole pixels and every frame rounds.  A
  projectile moving up at 8 pixels per nominal frame moves 7.68 pixels in a frame of 16
  milliseconds, stored as 8: after two such frames it is 16 pixels up, after one frame
  of 32 milliseconds only 15.
\<close>

theorem motion_not_linear_counterexample:
  "p_rect (fold Projectile_update [16 / 1000, 16 / 1000] (Projectile_init 0 400 300 0 (- 8)))
     = \<lparr>left = 398, top = 278, width = 4, height = 12\<rparr>
   \<and> p_rect (Projectile_update (sum_list [16 / 1000, 16 / 1000]) (Projectile_init 0 400 300 0 (- 8)))
     = \<lparr>left = 398, top = 279, width = 4, height = 12\<rparr>"
  by (simp add: Projectile_update_def Projectile_init_def get_rect_def set_centerx_def
      set_centery_def half_def rect_store_def Let_def config_defs)

lemma rect_store_nearest: "\<bar>real_of_int (rect_store r) - r\<bar> \<le> 1 / 2"
proof (cases "0 \<le> r")
  case True
  have "\<bar>real_of_int \<lfloor>r + 1 / 2\<rfloor> - r\<bar> \<le> 1 / 2" by linarith
  with True show ?thesis by (simp add: rect_store_def)
next
  case False
  have "\<bar>real_of_int \<lceil>r - 1 / 2\<rceil> - r\<bar> \<le> 1 / 2" by linarith
  with False show ?thesis by (simp add: rect_store_def)
qed

lemma near_step:
  fixes a b c s t n :: real
  assumes "\<bar>a - (b + s)\<bar> \<le> n / 2" and "\<bar>b - (c + t)\<bar> \<le> 1 / 2"
  shows "\<bar>a - (c + (t + s))\<bar> \<le> (n + 1) / 2"
proof -
  from assms have "\<bar>a - (c + (t + s))\<bar> \<le> n / 2 + 1 / 2" by linarith
  then show ?thesis by (simp add: add_divide_distrib)
qed

lemma rect_store_of_int [simp]: "rect_store (real_of_int k) = k"
proof (cases "0 \<le> k")
  case True
  have "\<lfloor>real_of_int k + 1 / 2\<rfloor> = k" by (rule floor_unique) simp_all
  with True show ?thesis by (simp add: rect_store_def)
next
  case False
  have "\<lceil>real_of_int k - 1 / 2\<rceil> = k" by (rule ceiling_unique) simp_all
  with False show ?thesis by (simp add: rect_store_def)
qed

lemma rect_store_add_of_int: "rect_store (real_of_int a + real_of_int k) = a + k"
  using rect_store_of_int [of "a + k"] by simp

lemma rect_store_add_Ints:
  "x \<in> \<int> \<Longrightarrow> real_of_int (rect_store (real_of_int a + x)) = real_of_int a + x"
proof -
  assume "x \<in> \<int>"
  then obtain k where "x = real_of_int k" by (rule Ints_cases)
  then show ?thesis by (simp add: rect_store_add_of_int)
qed

lemma sum_list_Ints:
  "\<forall>d\<in>set dts. v * d * 60 \<in> \<int> \<Longrightarrow> v * sum_list dts * 60 \<in> \<int>"
proof (induction dts)
  case Nil then show ?case by simp
next
  case (Cons d dts)
  then have "v * d * 60 + v * sum_list dts * 60 \<in> \<int>" by simp
  then show ?case by (simp add: algebra_simps)
qed

lemma Projectile_update_velocity [simp]:
  "velocity_x (Projectile_update d p) = velocity_x p"
  "velocity_y (Projectile_update d p) = velocity_y p"
  by (simp_all add: Projectile_update_def Let_def)

lemma Projectile_update_near:
  "\<bar>real_of_int (left (p_rect (Projectile_update d p)))
      - (real_of_int (left (p_rect p)) + velocity_x p * d * 60)\<bar> \<le> 1 / 2"
  "\<bar>real_of_int (top (p_rect (Projectile_update d p)))
      - (real_of_int (top (p_rect p)) + velocity_y p * d * 60)\<bar> \<le> 1 / 2"
  using rect_store_nearest [of "real_of_int (left (p_rect p)) + velocity_x p * d * 60"]
    rect_store_nearest [of "real_of_int (top (p_rect p)) + velocity_y p * d * 60"]
  by (simp_all add: Projectile_update_def Let_def)

lemma Projectile_fold_near:
  "\<bar>real_of_int (left (p_rect (fold Projectile_update dts p)))
      - (real_of_int (left (p_rect p)) + velocity_x p * sum_list dts * 60)\<bar> \<le> real (length dts) / 2
   \<and> \<bar>real_of_int (top (p_rect (fold Projectile_update dts p)))
      - (real_of_int (top (p_rect p)) + velocity_y p * sum_list dts * 60)\<bar> \<le> real (length dts) / 2"
proof (induction dts arbitrary: p)
  case Nil
  then show ?case by simp
next
  case (Cons d dts)
  let ?q = "Projectile_update d p"
  note ih = Cons.IH [of ?q]
  have x: "velocity_x p * (d + sum_list dts) * 60 = velocity_x p * d * 60 + velocity_x p * sum_list dts * 60"
    and y: "velocity_y p * (d + sum_list dts) * 60 = velocity_y p * d * 60 + velocity_y p * sum_list dts * 60"
    by (simp_all add: algebra_simps)
  have l: "\<bar>real_of_int (left (p_rect (fold Projectile_update dts ?q)))
      - (real_of_int (left (p_rect p)) + (velocity_x p * d * 60 + velocity_x p * sum_list dts * 60))\<bar>
      \<le> (real (length dts) + 1) / 2"
    using ih [THEN conjunct1, unfolded Projectile_update_velocity] Projectile_update_near(1) [of d p]
    by (rule near_step)
  have t: "\<bar>real_of_int (top (p_rect (fold Projectile_update dts ?q)))
      - (real_of_int (top (p_rect p)) + (velocity_y p * d * 60 + velocity_y p * sum_list dts * 60))\<bar>
      \<le> (real (length dts) + 1) / 2"
    using ih [THEN conjunct2, unfolded Projectile_update_velocity] Projectile_update_near(2) [of d p]
    by (rule near_step)
  have n: "real (length (d # dts)) / 2 = (real (length dts) + 1) / 2" by simp
  from l t show ?case
    unfolding fold_simps sum_list.Cons x y n by blast
qed

lemma Projectile_update_whole:
  assumes "velocity_x p * d * 60 = real_of_int kx" and "velocity_y p * d * 60 = real_of_int ky"
  shows "Projectile_update d p =
         p\<lparr>p_rect := (p_rect p)\<lparr>left := left (p_rect p) + kx, top := top (p_rect p) + ky\<rparr>\<rparr>"
  using assms by (simp add: Projectile_update_def Let_def rect_store_add_of_int)

lemma Projectile_update_compose:
  assumes "velocity_x p * a * 60 \<in> \<int>" "velocity_y p * a * 60 \<in> \<int>"
    and "velocity_x p * b * 60 \<in> \<int>" "velocity_y p * b * 60 \<in> \<int>"
  shows "Projectile_update b (Projectile_update a p) = Projectile_update (a + b) p"
proof -
  from assms obtain kx ky lx ly where k:
    "velocity_x p * a * 60 = real_of_int kx" "velocity_y p * a * 60 = real_of_int ky"
    "velocity_x p * b * 60 = real_of_int lx" "velocity_y p * b * 60 = real_of_int ly"
    by (auto elim!: Ints_cases)
  have ab: "velocity_x p * (a + b) * 60 = real_of_int (kx + lx)"
    "velocity_y p * (a + b) * 60 = real_of_int (ky + ly)"
    using k by (simp_all add: algebra_simps)
  have step1: "Projectile_update a p =
      p\<lparr>p_rect := (p_rect p)\<lparr>left := left (p_rect p) + kx, top := top (p_rect p) + ky\<rparr>\<rparr>"
    by (rule Projectile_update_whole) (rule k)+
  have step2: "Projectile_update b (Projectile_update a p) =
      (Projectile_update a p)\<lparr>p_rect := (p_rect (Projectile_update a p))
         \<lparr>left := left (p_rect (Projectile_update a p)) + lx,
          top := top (p_rect (Projectile_update a p)) + ly\<rparr>\<rparr>"
    by (rule Projectile_update_whole) (simp_all add: k)
  have both: "Projectile_update (a + b) p =
      p\<lparr>p_rect := (p_rect p)\<lparr>left := left (p_rect p) + (kx + lx), top := top (p_rect p) + (ky + ly)\<rparr>\<rparr>"
    by (rule Projectile_update_whole) (rule ab)+
  show ?thesis
    unfolding step2 both unfolding step1 by simp
qed

lemma Projectile_update_zero: "Projectile_update 0 p = p"
  by (simp add: Projectile_update_def Let_def)

lemma Projectile_fold_whole:
  "\<forall>d\<in>set dts. velocity_x p * d * 60 \<in> \<int> \<and> velocity_y p * d * 60 \<in> \<int> \<Longrightarrow>
   fold Projectile_update dts p = Projectile_update (sum_list dts) p"
proof (induction dts arbitrary: p)
  case Nil then show ?case by (simp add: Projectile_update_zero)
next
  case (Cons d dts)
  have "fold Projectile_update dts (Projectile_update d p)
        = Projectile_update (sum_list dts) (Projectile_update d p)"
    using Cons.prems by (intro Cons.IH) simp
  also have "\<dots> = Projectile_update (d + sum_list dts) p"
    using Cons.prems sum_list_Ints [of dts "velocity_x p"] sum_list_Ints [of dts "velocity_y p"]
    by (intro Projectile_update_compose) simp_all
  finally show ?case by simp
qed

lemma Enemy_update_fields [simp]:
  "speed (Enemy_update rotated d en) = speed en"
  "centerx (e_rect (Enemy_update rotated d en)) = centerx (e_rect en)"
  by (simp_all add: Enemy_update_def Let_def centerx_def centery_def set_centerx_def
      set_centery_def get_rect_def split: prod.splits)

lemma Enemy_update_centery:
  "centery (e_rect (Enemy_update rotated d en))
     = rect_store (real_of_int (top (e_rect en)) + speed en * d * 60) + half (height (e_rect en))"
  by (simp add: Enemy_update_def Let_def centerx_def centery_def set_centerx_def
      set_centery_def get_rect_def split: prod.splits)

lemma Enemy_update_near:
  "\<bar>real_of_int (centery (e_rect (Enemy_update rotated d en)))
      - (real_of_int (centery (e_rect en)) + speed en * d * 60)\<bar> \<le> 1 / 2"
proof -
  have "real_of_int (centery (e_rect (Enemy_update rotated d en)))
          - (real_of_int (centery (e_rect en)) + speed en * d * 60)
        = real_of_int (rect_store (real_of_int (top (e_rect en)) + speed en * d * 60))
          - (real_of_int (top (e_rect en)) + speed en * d * 60)"
    unfolding Enemy_update_centery by (simp add: centery_def)
  then show ?thesis
    using rect_store_nearest [of "real_of_int (top (e_rect en)) + speed en * d * 60"]
    by (simp only:)
qed

lemma Enemy_update_whole:
  assumes "speed en * d * 60 \<in> \<int>"
  shows "real_of_int (centery (e_rect (Enemy_update rotated d en)))
         = real_of_int (centery (e_rect en)) + speed en * d * 60"
  using rect_store_add_Ints [OF assms, of "top (e_rect en)"]
  unfolding Enemy_update_centery by (simp add: centery_def)

lemma Enemy_fold_near:
  "centerx (e_rect (fold (Enemy_update rotated) dts en)) = centerx (e_rect en)
   \<and> \<bar>real_of_int (centery (e_rect (fold (Enemy_update rotated) dts en)))
      - (real_of_int (centery (e_rect en)) + speed en * sum_list dts * 60)\<bar> \<le> real (length dts) / 2"
proof (induction dts arbitrary: en)
  case Nil
  then show ?case by simp
next
  case (Cons d dts)
  let ?q = "Enemy_update rotated d en"
  note ih = Cons.IH [of ?q]
  have y: "speed en * (d + sum_list dts) * 60 = speed en * d * 60 + speed en * sum_list dts * 60"
    by (simp add: algebra_simps)
  have c: "\<bar>real_of_int (centery (e_rect (fold (Enemy_update rotated) dts ?q)))
      - (real_of_int (centery (e_rect en)) + (speed en * d * 60 + speed en * sum_list dts * 60))\<bar>
      \<le> (real (length dts) + 1) / 2"
    using ih [THEN conjunct2, unfolded Enemy_update_fields] Enemy_update_near [of rotated d en]
    by (rule near_step)
  have n: "real (length (d # dts)) / 2 = (real (length dts) + 1) / 2" by simp
  from c ih [THEN conjunct1] show ?case
    unfolding fold_simps sum_list.Cons y n by simp
qed

lemma Enemy_fold_whole:
  "\<forall>d\<in>set dts. speed en * d * 60 \<in> \<int> \<Longrightarrow>
   speed (fold (Enemy_update rotated) dts en) = speed en
   \<and> real_of_int (centery (e_rect (fold (Enemy_update rotated) dts en)))
       = real_of_int (centery (e_rect en)) + speed en * sum_list dts * 60"
proof (induction dts arbitrary: en)
  case Nil then show ?case by simp
next
  case (Cons d dts)
  have "\<forall>x\<in>set dts. speed (Enemy_update rotated d en) * x * 60 \<in> \<int>"
    using Cons.prems by simp
  from Cons.IH [OF this] Cons.prems show ?case
    by (simp add: Enemy_update_whole algebra_simps)
qed

lemma near_both:
  fixes a b :: int and x :: real
  assumes "\<bar>real_of_int a - x\<bar> \<le> real n / 2" and "\<bar>real_of_int b - x\<bar> \<le> 1 / 2"
  shows "2 * \<bar>a - b\<bar> \<le> int n + 1"
proof -
  from assms have "\<bar>real_of_int a - real_of_int b\<bar> \<le> real n / 2 + 1 / 2" by linarith
  then have "real_of_int (2 * \<bar>a - b\<bar>) \<le> real_of_int (int n + 1)" by simp
  then show ?thesis by (simp only: of_int_le_iff)
qed

text \<open>
  Claim C8, amended.  For every projectile or enemy and every sequence of N delta times,
  integrating once per frame, where each frame stores the position rounded to a whole
  pixel, ends within (N + 1) / 2 pixels, on each axis, of a single integration over the
  summed delta time (a projectile's rectangle, an enemy's centre; the enemy's rectangle
  is rebuilt around its centre in every frame).  The two coincide when every frame's
  displacement \<open>velocity * delta_time * 60\<close> is a whole number of pixels; in general
  they differ.
\<close>

theorem motion_nearly_linear:
  "2 * \<bar>left (p_rect (fold Projectile_update dts p))
          - left (p_rect (Projectile_update (sum_list dts) p))\<bar> \<le> int (length dts) + 1
   \<and> 2 * \<bar>top (p_rect (fold Projectile_update dts p))
          - top (p_rect (Projectile_update (sum_list dts) p))\<bar> \<le> int (length dts) + 1
   \<and> centerx (e_rect (fold (Enemy_update rotated) dts en))
        = centerx (e_rect (Enemy_update rotated (sum_list dts) en))
   \<and> 2 * \<bar>centery (e_rect (fold (Enemy_update rotated) dts en))
          - centery (e_rect (Enemy_update rotated (sum_list dts) en))\<bar> \<le> int (length dts) + 1
   \<and> ((\<forall>d\<in>set dts. velocity_x p * d * 60 \<in> \<int> \<and> velocity_y p * d * 60 \<in> \<int>) \<longrightarrow>
        fold Projectile_update dts p = Projectile_update (sum_list dts) p)
   \<and> ((\<forall>d\<in>set dts. speed en * d * 60 \<in> \<int>) \<longrightarrow>
        centery (e_rect (fold (Enemy_update rotated) dts en))
          = centery (e_rect (Enemy_update rotated (sum_list dts) en)))"
proof (intro conjI impI)
  show "2 * \<bar>left (p_rect (fold Projectile_update dts p))
          - left (p_rect (Projectile_update (sum_list dts) p))\<bar> \<le> int (length dts) + 1"
    using Projectile_fold_near [of dts p] Projectile_update_near(1) [of "sum_list dts" p]
    by (intro near_both) blast+
  show "2 * \<bar>top (p_rect (fold Projectile_update dts p))
          - top (p_rect (Projectile_update (sum_list dts) p))\<bar> \<le> int (length dts) + 1"
    using Projectile_fold_near [of dts p] Projectile_update_near(2) [of "sum_list dts" p]
    by (intro near_both) blast+
  show "centerx (e_rect (fold (Enemy_update rotated) dts en))
        = centerx (e_rect (Enemy_update rotated (sum_list dts) en))"
    using Enemy_fold_near [of rotated dts en] by simp
  show "2 * \<bar>centery (e_rect (fold (Enemy_update rotated) dts en))
          - centery (e_rect (Enemy_update rotated (sum_list dts) en))\<bar> \<le> int (length dts) + 1"
    using Enemy_fold_near [of rotated dts en] Enemy_update_near [of rotated "sum_list dts" en]
    by (intro near_both) blast+
next
  assume "\<forall>d\<in>set dts. velocity_x p * d * 60 \<in> \<int> \<and> velocity_y p * d * 60 \<in> \<int>"
  then show "fold Projectile_update dts p = Projectile_update (sum_list dts) p"
    by (rule Projectile_fold_whole)
next
  assume w: "\<forall>d\<in>set dts. speed en * d * 60 \<in> \<int>"
  have "real_of_int (centery (e_rect (fold (Enemy_update rotated) dts en)))
        = real_of_int (centery (e_rect (Enemy_update rotated (sum_list dts) en)))"
    using Enemy_fold_whole [OF w, of rotated]
      Enemy_update_whole [OF sum_list_Ints [OF w], of rotated]
    by simp
  then show "centery (e_rect (fold (Enemy_update rotated) dts en))
        = centery (e_rect (Enemy_update rotated (sum_list dts) en))"
    by (simp only: of_int_eq_iff)
qed

text \<open>
  Frames of 25 and 50 milliseconds move a projectile by 12 and 24 whole pixels and an
  enemy of speed 2 by 3 and 6.
\<close>

theorem motion_nearly_linear_witness:
  "velocity_y (Projectile_init 0 400 300 0 (- 8)) * (25 / 1000) * 60 \<in> \<int>
   \<and> velocity_y (Projectile_init 0 400 300 0 (- 8)) * (50 / 1000) * 60 \<in> \<int>
   \<and> speed (Enemy_init 1 400 (- 40) 2 40 0 (1 / 2)) * (25 / 1000) * 60 \<in> \<int>
   \<and> speed (Enemy_init 1 400 (- 40) 2 40 0 (1 / 2)) * (50 / 1000) * 60 \<in> \<int>
   \<and> p_rect (fold Projectile_update [25 / 1000, 50 / 1000] (Projectile_init 0 400 300 0 (- 8)))
       = \<lparr>left = 398, top = 258, width = 4, height = 12\<rparr>
   \<and> p_rect (Projectile_update (sum_list [25 / 1000, 50 / 1000]) (Projectile_init 0 400 300 0 (- 8)))
       = \<lparr>left = 398, top = 258, width = 4, height = 12\<rparr>
   \<and> centery (e_rect (fold (Enemy_update square_rotation) [25 / 1000, 50 / 1000]
                        (Enemy_init 1 400 (- 40) 2 40 0 (1 / 2)))) = - 31"
proof -
  let ?p = "Projectile_init 0 400 300 0 (- 8)"
  let ?en = "Enemy_init 1 400 (- 40) 2 40 0 (1 / 2)"
  have vx: "velocity_x ?p = 0" and vy: "velocity_y ?p = - 8" and sp: "speed ?en = 2"
    by (simp_all add: Projectile_init_def Enemy_init_def)
  have i: "velocity_y ?p * (25 / 1000) * 60 \<in> \<int>" "velocity_y ?p * (50 / 1000) * 60 \<in> \<int>"
    "speed ?en * (25 / 1000) * 60 \<in> \<int>" "speed ?en * (50 / 1000) * 60 \<in> \<int>"
    unfolding vy sp by simp_all
  have a: "\<forall>d\<in>set [25 / 1000, 50 / 1000 :: real].
       velocity_x ?p * d * 60 \<in> \<int> \<and> velocity_y ?p * d * 60 \<in> \<int>"
    using i unfolding vx by simp
  have b: "\<forall>d\<in>set [25 / 1000, 50 / 1000 :: real]. speed ?en * d * 60 \<in> \<int>"
    using i by simp
  have c: "p_rect (Projectile_update (sum_list [25 / 1000, 50 / 1000]) ?p)
       = \<lparr>left = 398, top = 258, width = 4, height = 12\<rparr>"
    by (simp add: Projectile_update_def Projectile_init_def rect_store_def Let_def rect_defs config_defs)
  have d: "centery (e_rect (Enemy_update square_rotation (sum_list [25 / 1000, 50 / 1000]) ?en)) = - 31"
    by (simp add: Enemy_update_def Enemy_init_def rect_store_def Let_def square_rotation_def rect_defs)
  note t = motion_nearly_linear [of "[25 / 1000, 50 / 1000]" ?p square_rotation ?en]
  from t a have e: "fold Projectile_update [25 / 1000, 50 / 1000] ?p
      = Projectile_update (sum_list [25 / 1000, 50 / 1000]) ?p" by blast
  from t b have f: "centery (e_rect (fold (Enemy_update square_rotation) [25 / 1000, 50 / 1000] ?en))
      = centery (e_rect (Enemy_update square_rotation (sum_list [25 / 1000, 50 / 1000]) ?en))"
    by blast
  from i c d e f show ?thesis by simp
qed

subsection \<open>Enemies hit the player\<close>

lemma fold_kill_enemy:
  "fold kill_enemy ks e =
     e\<lparr>enemies := filter (\<lambda>x. eid x \<notin> eid ` set ks) (enemies e),
       all_sprites := filter (\<lambda>r. r \<notin> (\<lambda>k. EnemyRef (eid k)) ` set ks) (all_sprites e)\<rparr>"
proof (induction ks arbitrary: e)
  case Nil then show ?case by simp
next
  case (Cons k ks)
  have 1: "filter (\<lambda>x. eid x \<notin> eid ` set ks) (filter (\<lambda>x. eid x \<noteq> eid k) (enemies e))
        = filter (\<lambda>x. eid x \<notin> eid ` set (k # ks)) (enemies e)"
    by (auto intro: filter_cong)
  have 2: "filter (\<lambda>r. r \<notin> (\<lambda>k. EnemyRef (eid k)) ` set ks)
             (filter (\<lambda>r. r \<noteq> EnemyRef (eid k)) (all_sprites e))
        = filter (\<lambda>r. r \<notin> (\<lambda>k. EnemyRef (eid k)) ` set (k # ks)) (all_sprites e)"
    by (auto intro: filter_cong)
  show ?case
    unfolding fold_simps Cons.IH 1 [symmetric] 2 [symmetric] by (simp add: kill_enemy_def)
qed

lemma filter_ids_distinct:
  assumes "distinct (map eid es)"
  shows "filter (\<lambda>x. eid x \<notin> eid ` set (filter C es)) es = filter (\<lambda>x. \<not> C x) es"
proof (rule filter_cong [OF refl])
  fix x assume x: "x \<in> set es"
  from assms have inj: "inj_on eid (set es)" by (simp add: distinct_map)
  show "(eid x \<notin> eid ` set (filter C es)) = (\<not> C x)"
  proof
    assume "eid x \<notin> eid ` set (filter C es)"
    with x show "\<not> C x" by auto
  next
    assume n: "\<not> C x"
    show "eid x \<notin> eid ` set (filter C es)"
    proof
      assume "eid x \<in> eid ` set (filter C es)"
      then obtain y where y: "y \<in> set es" "C y" "eid x = eid y" by auto
      with inj x have "x = y" by (auto dest: inj_onD)
      with y n show False by simp
    qed
  qed
qed

text \<open>
  Claim C4.  While the engine's invulnerability timer is positive the enemy-player step
  changes nothing.  Otherwise, if at least one enemy overlaps the player's rectangle,
  every overlapping enemy is removed, the lives go down by exactly one however many
  enemies overlap, and the invulnerability timer is set to the configured duration; the
  enemies left are exactly those that do not overlap the player.  With no overlap
  nothing changes.
\<close>

theorem enemy_player_resolution:
  "(player_invulnerable_timer e > 0 \<longrightarrow> check_collisions_player e = e)
   \<and> (player_invulnerable_timer e \<le> 0
        \<and> (\<exists>en\<in>set (enemies e). colliderect (pl_rect (player e)) (e_rect en)) \<longrightarrow>
          (\<forall>en\<in>set (enemies e). colliderect (pl_rect (player e)) (e_rect en) \<longrightarrow>
               en \<notin> set (enemies (check_collisions_player e)))
        \<and> lives (player (check_collisions_player e)) = lives (player e) - 1
        \<and> player_invulnerable_timer (check_collisions_player e) = PLAYER_INVULNERABILITY_TIME
        \<and> (distinct (map eid (enemies e)) \<longrightarrow>
             enemies (check_collisions_player e)
               = filter (\<lambda>en. \<not> colliderect (pl_rect (player e)) (e_rect en)) (enemies e)))
   \<and> (player_invulnerable_timer e \<le> 0
        \<and> \<not> (\<exists>en\<in>set (enemies e). colliderect (pl_rect (player e)) (e_rect en)) \<longrightarrow>
          check_collisions_player e = e)"
proof (intro conjI impI)
  assume "player_invulnerable_timer e > 0"
  then show "check_collisions_player e = e" by (simp add: check_collisions_player_def)
next
  assume a: "player_invulnerable_timer e \<le> 0
        \<and> \<not> (\<exists>en\<in>set (enemies e). colliderect (pl_rect (player e)) (e_rect en))"
  then have "spritecollide (pl_rect (player e)) (enemies e) = []"
    by (auto simp: spritecollide_def filter_empty_conv)
  with a show "check_collisions_player e = e" by (simp add: check_collisions_player_def)
next
  assume a: "player_invulnerable_timer e \<le> 0
        \<and> (\<exists>en\<in>set (enemies e). colliderect (pl_rect (player e)) (e_rect en))"
  let ?hits = "spritecollide (pl_rect (player e)) (enemies e)"
  from a have ne: "?hits \<noteq> []"
    by (auto simp: spritecollide_def filter_empty_conv)
  have eq: "check_collisions_player e =
      fold kill_enemy ?hits (e\<lparr>player := take_damage (player e),
                               player_invulnerable_timer := PLAYER_INVULNERABILITY_TIME\<rparr>)"
    using a ne by (simp add: check_collisions_player_def Let_def)
  show "\<forall>en\<in>set (enemies e). colliderect (pl_rect (player e)) (e_rect en) \<longrightarrow>
               en \<notin> set (enemies (check_collisions_player e))"
    unfolding eq fold_kill_enemy by (auto simp: spritecollide_def)
  show "lives (player (check_collisions_player e)) = lives (player e) - 1"
    unfolding eq fold_kill_enemy by (simp add: take_damage_def)
  show "player_invulnerable_timer (check_collisions_player e) = PLAYER_INVULNERABILITY_TIME"
    unfolding eq fold_kill_enemy by simp
  show "enemies (check_collisions_player e)
               = filter (\<lambda>en. \<not> colliderect (pl_rect (player e)) (e_rect en)) (enemies e)"
    if "distinct (map eid (enemies e))"
    unfolding eq fold_kill_enemy using filter_ids_distinct [OF that]
    by (simp add: spritecollide_def)
qed

theorem enemy_player_resolution_witness:
  "player_invulnerable_timer contact_engine \<le> 0
   \<and> colliderect (pl_rect (player contact_engine)) (e_rect (Enemy_init 1 400 500 2 40 0 0))
   \<and> colliderect (pl_rect (player contact_engine)) (e_rect (Enemy_init 2 390 485 1 20 0 0))
   \<and> enemies contact_engine
       = [Enemy_init 1 400 500 2 40 0 0, Enemy_init 2 390 485 1 20 0 0, Enemy_init 3 100 100 2 40 0 0]
   \<and> distinct (map eid (enemies contact_engine))
   \<and> enemies (check_collisions_player contact_engine) = [Enemy_init 3 100 100 2 40 0 0]
   \<and> lives (player contact_engine) = 3
   \<and> lives (player (check_collisions_player contact_engine)) = 2
   \<and> player_invulnerable_timer (check_collisions_player contact_engine) = 2
   \<and> check_collisions_player (contact_engine\<lparr>player_invulnerable_timer := 1\<rparr>)
       = contact_engine\<lparr>player_invulnerable_timer := 1\<rparr>"
  using enemy_player_resolution [of contact_engine]
    enemy_player_resolution [of "contact_engine\<lparr>player_invulnerable_timer := 1\<rparr>"]
  by (simp add: contact_engine_def initial_engine_def check_collisions_player_def spritecollide_def
      take_damage_def kill_enemy_def Enemy_init_def colliderect_def Let_def rect_defs config_defs)

subsection \<open>Projectiles hit enemies\<close>










subsection \<open>Spawning and colliding in one frame\<close>












end
